theory Spec2Isabelle
  imports Main "HOL-Library.Word"
begin

section \<open>Errors\<close>

text \<open>
  Every exception the modelled code raises is a value of one type. \<open>DataError\<close>,
  \<open>ProcessError\<close> and \<open>ActionCancelled\<close> are the classes of \<^verbatim>\<open>trezor.wire\<close> the
  sources raise; \<open>RecoveryAborted\<close> is \<^verbatim>\<open>recover.RecoveryAborted\<close>. The three names
  \<open>ProtocolSequenceError\<close>, \<open>IntegrityError\<close> and \<open>LimitExceededError\<close> come from
  the error taxonomy of the specification; \<open>OtherError\<close> stands for any exception of a
  collaborator (a step handler, the wire context).
\<close>

datatype error =
    DataError string
  | ProcessError string
  | ActionCancelled
  | RecoveryAborted
  | ProtocolSequenceError
  | IntegrityError
  | LimitExceededError
  | OtherError string

section \<open>Monero: \<^verbatim>\<open>apps/monero/sign_tx.py\<close>\<close>

subsection \<open>Messages\<close>

text \<open>
  The members of \<^verbatim>\<open>trezor.enums.MessageType\<close> that \<^verbatim>\<open>_sign_tx_dispatch\<close>
  compares against, and one constructor for every other wire type.
\<close>

datatype MessageType =
    MoneroTransactionInitRequest
  | MoneroTransactionSetInputRequest
  | MoneroTransactionInputViniRequest
  | MoneroTransactionAllInputsSetRequest
  | MoneroTransactionSetOutputRequest
  | MoneroTransactionAllOutSetRequest
  | MoneroTransactionSignInputRequest
  | MoneroTransactionFinalRequest
  | OtherMessageType nat

text \<open>
  A received message: its class fixes \<^verbatim>\<open>MESSAGE_WIRE_TYPE\<close>, and it carries the
  attributes the dispatcher reads, in the order the dispatcher passes them on. The
  attribute values are opaque (\<open>'v\<close>), except \<^verbatim>\<open>is_offloaded_bp\<close>, an optional
  boolean that the dispatcher converts with \<^verbatim>\<open>bool(...)\<close>.
\<close>

datatype 'v msg =
    InitRequest 'v 'v 'v
      \<comment> \<open>\<^verbatim>\<open>address_n, network_type, tsx_data\<close>\<close>
  | SetInputRequest 'v
      \<comment> \<open>\<^verbatim>\<open>src_entr\<close>\<close>
  | InputViniRequest 'v 'v 'v 'v
      \<comment> \<open>\<^verbatim>\<open>src_entr, vini, vini_hmac, orig_idx\<close>\<close>
  | AllInputsSetRequest
  | SetOutputRequest "bool option" 'v 'v 'v
      \<comment> \<open>\<^verbatim>\<open>is_offloaded_bp, dst_entr, dst_entr_hmac, rsig_data\<close>\<close>
  | AllOutSetRequest
  | SignInputRequest 'v 'v 'v 'v 'v 'v 'v 'v
      \<comment> \<open>\<^verbatim>\<open>src_entr, vini, vini_hmac, pseudo_out, pseudo_out_hmac,
          pseudo_out_alpha, spend_key, orig_idx\<close>\<close>
  | FinalRequest
  | OtherMessage nat

fun MESSAGE_WIRE_TYPE :: "'v msg \<Rightarrow> MessageType" where
  "MESSAGE_WIRE_TYPE (InitRequest _ _ _) = MoneroTransactionInitRequest"
| "MESSAGE_WIRE_TYPE (SetInputRequest _) = MoneroTransactionSetInputRequest"
| "MESSAGE_WIRE_TYPE (InputViniRequest _ _ _ _) = MoneroTransactionInputViniRequest"
| "MESSAGE_WIRE_TYPE AllInputsSetRequest = MoneroTransactionAllInputsSetRequest"
| "MESSAGE_WIRE_TYPE (SetOutputRequest _ _ _ _) = MoneroTransactionSetOutputRequest"
| "MESSAGE_WIRE_TYPE AllOutSetRequest = MoneroTransactionAllOutSetRequest"
| "MESSAGE_WIRE_TYPE (SignInputRequest _ _ _ _ _ _ _ _) = MoneroTransactionSignInputRequest"
| "MESSAGE_WIRE_TYPE FinalRequest = MoneroTransactionFinalRequest"
| "MESSAGE_WIRE_TYPE (OtherMessage t) = OtherMessageType t"

text \<open>\<^verbatim>\<open>bool(x)\<close> of an optional boolean: \<^verbatim>\<open>None\<close> is false.\<close>

fun py_bool :: "bool option \<Rightarrow> bool" where
  "py_bool None = False"
| "py_bool (Some b) = b"

subsection \<open>The step handlers and the wire context\<close>

text \<open>
  The modules \<^verbatim>\<open>apps.monero.signing.step_*\<close> are imported by the dispatcher and
  are parameters here: each handler takes the \<^verbatim>\<open>State\<close> object (\<open>'s\<close>) and the
  attributes the dispatcher hands over, and either raises or returns a response
  (\<open>'r\<close>) together with the state as it has mutated it.
\<close>

record ('s, 'v, 'k, 'r) signing_steps =
  init_transaction :: "'s \<Rightarrow> 'v \<Rightarrow> 'v \<Rightarrow> 'v \<Rightarrow> 'k \<Rightarrow> error + 'r \<times> 's"
  set_input :: "'s \<Rightarrow> 'v \<Rightarrow> error + 'r \<times> 's"
  input_vini :: "'s \<Rightarrow> 'v \<Rightarrow> 'v \<Rightarrow> 'v \<Rightarrow> 'v \<Rightarrow> error + 'r \<times> 's"
  all_inputs_set :: "'s \<Rightarrow> error + 'r \<times> 's"
  set_output :: "'s \<Rightarrow> 'v \<Rightarrow> 'v \<Rightarrow> 'v \<Rightarrow> bool \<Rightarrow> error + 'r \<times> 's"
  all_outputs_set :: "'s \<Rightarrow> error + 'r \<times> 's"
  sign_input :: "'s \<Rightarrow> 'v \<Rightarrow> 'v \<Rightarrow> 'v \<Rightarrow> 'v \<Rightarrow> 'v \<Rightarrow> 'v \<Rightarrow> 'v \<Rightarrow> 'v \<Rightarrow> error + 'r \<times> 's"
  final_msg :: "'s \<Rightarrow> error + 'r \<times> 's"

text \<open>
  The wire context \<^verbatim>\<open>ctx\<close> (\<open>'c\<close>): \<^verbatim>\<open>ctx.write\<close> and
  \<^verbatim>\<open>ctx.read_any\<close> belong to \<^verbatim>\<open>trezor.wire\<close> and are parameters as well.
\<close>

record ('c, 'v, 'r) wire_context =
  ctx_write :: "'r \<Rightarrow> 'c \<Rightarrow> error + 'c"
  read_any :: "MessageType list \<Rightarrow> 'c \<Rightarrow> error + 'v msg \<times> 'c"

subsection \<open>\<^verbatim>\<open>_sign_tx_dispatch\<close>\<close>

text \<open>
  The result of a handler paired with the tuple of message types accepted next;
  \<^verbatim>\<open>None\<close> after the final request.
\<close>

definition with_accept ::
  "MessageType list option \<Rightarrow> error + 'r \<times> 's \<Rightarrow> error + 'r \<times> MessageType list option \<times> 's" where
  "with_accept acc res = (case res of Inl e \<Rightarrow> Inl e | Inr (r, s) \<Rightarrow> Inr (r, acc, s))"

fun sign_tx_dispatch ::
  "('s, 'v, 'k, 'r) signing_steps \<Rightarrow> 's \<Rightarrow> 'v msg \<Rightarrow> 'k
     \<Rightarrow> error + 'r \<times> MessageType list option \<times> 's" where
  "sign_tx_dispatch st state (InitRequest address_n network_type tsx_data) keychain =
     with_accept (Some [MoneroTransactionSetInputRequest])
       (init_transaction st state address_n network_type tsx_data keychain)"
| "sign_tx_dispatch st state (SetInputRequest src_entr) keychain =
     with_accept
       (Some [MoneroTransactionSetInputRequest, MoneroTransactionInputViniRequest])
       (set_input st state src_entr)"
| "sign_tx_dispatch st state (InputViniRequest src_entr vini vini_hmac orig_idx) keychain =
     with_accept
       (Some [MoneroTransactionInputViniRequest, MoneroTransactionAllInputsSetRequest])
       (input_vini st state src_entr vini vini_hmac orig_idx)"
| "sign_tx_dispatch st state AllInputsSetRequest keychain =
     with_accept (Some [MoneroTransactionSetOutputRequest]) (all_inputs_set st state)"
| "sign_tx_dispatch st state (SetOutputRequest is_offloaded_bp dst dst_hmac rsig_data) keychain =
     with_accept
       (Some [MoneroTransactionSetOutputRequest, MoneroTransactionAllOutSetRequest])
       (set_output st state dst dst_hmac rsig_data (py_bool is_offloaded_bp))"
| "sign_tx_dispatch st state AllOutSetRequest keychain =
     with_accept (Some [MoneroTransactionSignInputRequest]) (all_outputs_set st state)"
| "sign_tx_dispatch st state
     (SignInputRequest src_entr vini vini_hmac pseudo_out pseudo_out_hmac
        pseudo_out_alpha spend_key orig_idx) keychain =
     with_accept
       (Some [MoneroTransactionSignInputRequest, MoneroTransactionFinalRequest])
       (sign_input st state src_entr vini vini_hmac pseudo_out pseudo_out_hmac
          pseudo_out_alpha spend_key orig_idx)"
| "sign_tx_dispatch st state FinalRequest keychain =
     with_accept None (final_msg st state)"
| "sign_tx_dispatch st state (OtherMessage t) keychain =
     Inl (DataError ''Unknown message'')"

subsection \<open>\<^verbatim>\<open>sign_tx\<close>\<close>

text \<open>
  What one call of \<^verbatim>\<open>sign_tx\<close> does, in order: \<open>StateCreated\<close> for
  \<^verbatim>\<open>State(ctx)\<close>, \<open>Handled k r\<close> when the dispatcher returned response \<open>r\<close> for a
  message of type \<open>k\<close>, \<open>Written r\<close> for \<^verbatim>\<open>ctx.write(r)\<close> and \<open>ReadAny acc\<close> for
  a call of \<^verbatim>\<open>ctx.read_any(acc)\<close>.
\<close>

datatype 'r event =
    StateCreated
  | Handled MessageType 'r
  | Written 'r
  | ReadAny "MessageType list"

text \<open>
  How a run of the loop stands: it returned a message, it raised, or it is still
  going after the given number of iterations.
\<close>

datatype 'r outcome = Returned 'r | Raised error | Running

text \<open>
  The \<^verbatim>\<open>while True\<close> loop, bounded by a number of iterations. The calls of the
  garbage collector, of the logger and of \<^verbatim>\<open>utils.unimport_*\<close> manage memory
  only and are left out. The result is the outcome, the context and the events of the
  run in the order they happened.
\<close>

fun sign_tx_loop ::
  "nat \<Rightarrow> ('s, 'v, 'k, 'r) signing_steps \<Rightarrow> ('c, 'v, 'r) wire_context \<Rightarrow> 'k
     \<Rightarrow> 's \<Rightarrow> 'v msg \<Rightarrow> 'c \<Rightarrow> 'r outcome \<times> 'c \<times> 'r event list" where
  "sign_tx_loop 0 st io keychain state received_msg ctx = (Running, ctx, [])"
| "sign_tx_loop (Suc n) st io keychain state received_msg ctx =
     (case sign_tx_dispatch st state received_msg keychain of
        Inl e \<Rightarrow> (Raised e, ctx, [])
      | Inr (result_msg, accept_msgs, state') \<Rightarrow>
          (case accept_msgs of
             None \<Rightarrow>
               (Returned result_msg, ctx,
                [Handled (MESSAGE_WIRE_TYPE received_msg) result_msg])
           | Some acc \<Rightarrow>
               (case ctx_write io result_msg ctx of
                  Inl e \<Rightarrow>
                    (Raised e, ctx,
                     [Handled (MESSAGE_WIRE_TYPE received_msg) result_msg])
                | Inr ctx' \<Rightarrow>
                    (case read_any io acc ctx' of
                       Inl e \<Rightarrow>
                         (Raised e, ctx',
                          [Handled (MESSAGE_WIRE_TYPE received_msg) result_msg,
                           Written result_msg, ReadAny acc])
                     | Inr (next_msg, ctx'') \<Rightarrow>
                         (case sign_tx_loop n st io keychain state' next_msg ctx'' of
                            (out, c, evs) \<Rightarrow>
                              (out, c,
                               Handled (MESSAGE_WIRE_TYPE received_msg) result_msg
                                 # Written result_msg # ReadAny acc # evs))))))"

definition sign_tx ::
  "nat \<Rightarrow> ('s, 'v, 'k, 'r) signing_steps \<Rightarrow> ('c, 'v, 'r) wire_context \<Rightarrow> ('c \<Rightarrow> 's)
     \<Rightarrow> 'c \<Rightarrow> 'v msg \<Rightarrow> 'k \<Rightarrow> 'r outcome \<times> 'c \<times> 'r event list" where
  "sign_tx n st io State ctx received_msg keychain =
     (case sign_tx_loop n st io keychain (State ctx) received_msg ctx of
        (out, c, evs) \<Rightarrow> (out, c, StateCreated # evs))"

subsection \<open>The phase table of the specification\<close>

text \<open>
  The column ``On success advances to'' of the phase table, as the specification
  writes it, with every phase named by the request type it accepts: the message types
  that may follow a request of the given type. Nothing follows the final request, and
  a message type outside the table has no row.
\<close>

fun advances_to :: "MessageType \<Rightarrow> MessageType set" where
  "advances_to MoneroTransactionInitRequest = {MoneroTransactionSetInputRequest}"
| "advances_to MoneroTransactionSetInputRequest =
     {MoneroTransactionSetInputRequest, MoneroTransactionInputViniRequest}"
| "advances_to MoneroTransactionInputViniRequest =
     {MoneroTransactionInputViniRequest, MoneroTransactionAllInputsSetRequest}"
| "advances_to MoneroTransactionAllInputsSetRequest = {MoneroTransactionSetOutputRequest}"
| "advances_to MoneroTransactionSetOutputRequest =
     {MoneroTransactionSetOutputRequest, MoneroTransactionAllOutSetRequest}"
| "advances_to MoneroTransactionAllOutSetRequest = {MoneroTransactionSignInputRequest}"
| "advances_to MoneroTransactionSignInputRequest =
     {MoneroTransactionSignInputRequest, MoneroTransactionFinalRequest}"
| "advances_to MoneroTransactionFinalRequest = {}"
| "advances_to (OtherMessageType t) = {}"

text \<open>The message types a returned accept tuple lets through; \<^verbatim>\<open>None\<close> lets none.\<close>

fun accepted_next :: "MessageType list option \<Rightarrow> MessageType set" where
  "accepted_next None = {}"
| "accepted_next (Some acc) = set acc"

text \<open>
  The strict total order of the phases, INIT < SET_INPUT < INPUT_VINI <
  ALL_INPUTS_SET < SET_OUTPUT < ALL_OUTPUTS_SET < SIGN_INPUT < FINAL, as the position
  of the request type of each phase. Other message types belong to no phase; they are
  ranked last and are never handled.
\<close>

fun phase_rank :: "MessageType \<Rightarrow> nat" where
  "phase_rank MoneroTransactionInitRequest = 0"
| "phase_rank MoneroTransactionSetInputRequest = 1"
| "phase_rank MoneroTransactionInputViniRequest = 2"
| "phase_rank MoneroTransactionAllInputsSetRequest = 3"
| "phase_rank MoneroTransactionSetOutputRequest = 4"
| "phase_rank MoneroTransactionAllOutSetRequest = 5"
| "phase_rank MoneroTransactionSignInputRequest = 6"
| "phase_rank MoneroTransactionFinalRequest = 7"
| "phase_rank (OtherMessageType t) = 8"

text \<open>
  A run never regresses below rank \<open>lo\<close>: every request it handles, and every message
  type it offers to \<^verbatim>\<open>read_any\<close>, is of a phase at least as late as the last
  request handled before it.
\<close>

fun never_regresses :: "nat \<Rightarrow> 'r event list \<Rightarrow> bool" where
  "never_regresses lo [] = True"
| "never_regresses lo (Handled k r # evs) =
     (lo \<le> phase_rank k \<and> never_regresses (phase_rank k) evs)"
| "never_regresses lo (ReadAny acc # evs) =
     (list_all (\<lambda>k. lo \<le> phase_rank k) acc \<and> never_regresses lo evs)"
| "never_regresses lo (StateCreated # evs) = never_regresses lo evs"
| "never_regresses lo (Written r # evs) = never_regresses lo evs"


subsection \<open>A host and handlers to run the loop on\<close>

text \<open>
  Handlers that do nothing but count: the state is the number of requests handled so
  far, and each response is that number.
\<close>

definition counting_steps :: "(nat, 'v, unit, nat) signing_steps" where
  "counting_steps =
     \<lparr> init_transaction = (\<lambda>s a b c k. Inr (s, Suc s)),
       set_input = (\<lambda>s a. Inr (s, Suc s)),
       input_vini = (\<lambda>s a b c d. Inr (s, Suc s)),
       all_inputs_set = (\<lambda>s. Inr (s, Suc s)),
       set_output = (\<lambda>s a b c d. Inr (s, Suc s)),
       all_outputs_set = (\<lambda>s. Inr (s, Suc s)),
       sign_input = (\<lambda>s a b c d e f g h. Inr (s, Suc s)),
       final_msg = (\<lambda>s. Inr (s, Suc s)) \<rparr>"

text \<open>
  A host given as the list of the messages it is going to send: a write succeeds, a
  read takes the next message and raises when its type is not among the expected
  ones or when nothing is left.
\<close>

fun scripted_read :: "MessageType list \<Rightarrow> 'v msg list \<Rightarrow> error + 'v msg \<times> 'v msg list" where
  "scripted_read acc [] = Inl (OtherError ''no message'')"
| "scripted_read acc (m # ms) =
     (if MESSAGE_WIRE_TYPE m \<in> set acc then Inr (m, ms)
      else Inl (OtherError ''unexpected message''))"

definition scripted_host :: "('v msg list, 'v, 'r) wire_context" where
  "scripted_host = \<lparr> ctx_write = (\<lambda>r c. Inr c), read_any = scripted_read \<rparr>"

text \<open>The types of the requests handled in a run, in order.\<close>

fun handled_kinds :: "'r event list \<Rightarrow> MessageType list" where
  "handled_kinds [] = []"
| "handled_kinds (Handled k r # evs) = k # handled_kinds evs"
| "handled_kinds (StateCreated # evs) = handled_kinds evs"
| "handled_kinds (Written r # evs) = handled_kinds evs"
| "handled_kinds (ReadAny acc # evs) = handled_kinds evs"

subsection \<open>The checks the specification places in the step handlers\<close>

text \<open>
  Modelled from the spec: the class \<^verbatim>\<open>State\<close> of
  \<^verbatim>\<open>apps.monero.signing.state\<close> is not among the sources. These are the fields of
  the Session of the specification that its checks read: the expected counts, the two
  cursors and the two running commitment sums (\<open>'g\<close> is the commitment group).
\<close>

record 'g Session =
  input_count :: nat
  output_count :: nat
  input_cursor :: nat
  output_cursor :: nat
  pseudo_output_sum :: 'g
  output_commitment_sum :: 'g

text \<open>
  Modelled from the spec: the modules \<^verbatim>\<open>step_01_init_transaction\<close> to
  \<^verbatim>\<open>step_10_sign_final\<close> are not among the sources, and the specification leaves
  the construction of the primitives open. What it leaves open is a parameter: the
  protocol's ceiling on the counts, how a request declares its counts and its index,
  and the work each step does once its check has passed.
\<close>

record ('v, 'k, 'r, 'g) engine =
  max_count :: nat
  declared_counts :: "'v \<Rightarrow> nat \<times> nat"
  declared_index :: "'v \<Rightarrow> nat"
  start_session :: "'g Session \<Rightarrow> 'v \<Rightarrow> 'v \<Rightarrow> 'v \<Rightarrow> 'k \<Rightarrow> error + 'r \<times> 'g Session"
  fold_input :: "'g Session \<Rightarrow> 'v \<Rightarrow> error + 'r \<times> 'g Session"
  admit_input :: "'g Session \<Rightarrow> 'v \<Rightarrow> 'v \<Rightarrow> 'v \<Rightarrow> 'v \<Rightarrow> error + 'r \<times> 'g Session"
  close_inputs :: "'g Session \<Rightarrow> error + 'r \<times> 'g Session"
  fold_output :: "'g Session \<Rightarrow> 'v \<Rightarrow> 'v \<Rightarrow> 'v \<Rightarrow> bool \<Rightarrow> error + 'r \<times> 'g Session"
  outputs_ack :: "'g Session \<Rightarrow> 'r"
  sign_one ::
    "'g Session \<Rightarrow> 'v \<Rightarrow> 'v \<Rightarrow> 'v \<Rightarrow> 'v \<Rightarrow> 'v \<Rightarrow> 'v \<Rightarrow> 'v \<Rightarrow> 'v \<Rightarrow> error + 'r \<times> 'g Session"
  finalize :: "'g Session \<Rightarrow> error + 'r \<times> 'g Session"

text \<open>
  Modelled from the spec: \<^verbatim>\<open>step_01_init_transaction.init_transaction\<close> is
  missing. ``An excessive declared count of inputs/outputs (exceeding the protocol's
  hard ceiling) is rejected at INIT with LimitExceededError before any accumulation
  begins.''
\<close>

definition spec_init_transaction ::
  "('v, 'k, 'r, 'g) engine \<Rightarrow> 'g Session \<Rightarrow> 'v \<Rightarrow> 'v \<Rightarrow> 'v \<Rightarrow> 'k \<Rightarrow> error + 'r \<times> 'g Session" where
  "spec_init_transaction E s address_n network_type tsx_data keychain =
     (case declared_counts E tsx_data of
        (n_in, n_out) \<Rightarrow>
          if max_count E < n_in \<or> max_count E < n_out then Inl LimitExceededError
          else start_session E s address_n network_type tsx_data keychain)"

text \<open>
  Modelled from the spec: \<^verbatim>\<open>step_02_set_input.set_input\<close> is missing. SET_INPUT
  accepts ``one input descriptor, index == input_cursor''; a request whose declared
  index does not equal the expected cursor is rejected with a ProtocolSequenceError.
\<close>

definition spec_set_input ::
  "('v, 'k, 'r, 'g) engine \<Rightarrow> 'g Session \<Rightarrow> 'v \<Rightarrow> error + 'r \<times> 'g Session" where
  "spec_set_input E s src_entr =
     (if declared_index E src_entr \<noteq> input_cursor s then Inl ProtocolSequenceError
      else fold_input E s src_entr)"

text \<open>
  Modelled from the spec: \<^verbatim>\<open>step_04_input_vini.input_vini\<close> is missing. INPUT_VINI
  accepts ``previously offloaded input data + its tag, one per input, index ==
  input_cursor''; the index is the \<^verbatim>\<open>orig_idx\<close> the dispatcher hands over.
\<close>

definition spec_input_vini ::
  "('v, 'k, 'r, 'g) engine \<Rightarrow> 'g Session \<Rightarrow> 'v \<Rightarrow> 'v \<Rightarrow> 'v \<Rightarrow> 'v \<Rightarrow> error + 'r \<times> 'g Session" where
  "spec_input_vini E s src_entr vini vini_hmac orig_idx =
     (if declared_index E orig_idx \<noteq> input_cursor s then Inl ProtocolSequenceError
      else admit_input E s src_entr vini vini_hmac orig_idx)"

text \<open>
  Modelled from the spec: \<^verbatim>\<open>step_06_set_output.set_output\<close> is missing. SET_OUTPUT
  accepts ``one output descriptor, index == output_cursor''.
\<close>

definition spec_set_output ::
  "('v, 'k, 'r, 'g) engine \<Rightarrow> 'g Session \<Rightarrow> 'v \<Rightarrow> 'v \<Rightarrow> 'v \<Rightarrow> bool \<Rightarrow> error + 'r \<times> 'g Session" where
  "spec_set_output E s dst dst_hmac rsig_data is_offloaded_bp =
     (if declared_index E dst \<noteq> output_cursor s then Inl ProtocolSequenceError
      else fold_output E s dst dst_hmac rsig_data is_offloaded_bp)"

text \<open>
  Modelled from the spec: \<^verbatim>\<open>step_07_all_outputs_set.all_outputs_set\<close> is missing.
  ALL_OUTPUTS_SET ``checks pseudo_output_sum == output_commitment_sum; failure aborts
  with IntegrityError'' (\<^verbatim>\<open>finalize_balance_check\<close>); the sums are elements of the
  group, so equal sums are equal values.
\<close>

definition spec_all_outputs_set ::
  "('v, 'k, 'r, 'g) engine \<Rightarrow> 'g Session \<Rightarrow> error + 'r \<times> 'g Session" where
  "spec_all_outputs_set E s =
     (if pseudo_output_sum s \<noteq> output_commitment_sum s then Inl IntegrityError
      else Inr (outputs_ack E s, s))"

text \<open>
  Modelled from the spec: \<^verbatim>\<open>step_09_sign_input.sign_input\<close> is missing. SIGN_INPUT
  accepts ``previously offloaded input + authenticating tag, one per input, index ==
  input_cursor''; the index is the \<^verbatim>\<open>orig_idx\<close> the dispatcher hands over.
\<close>

definition spec_sign_input ::
  "('v, 'k, 'r, 'g) engine \<Rightarrow> 'g Session \<Rightarrow> 'v \<Rightarrow> 'v \<Rightarrow> 'v \<Rightarrow> 'v \<Rightarrow> 'v \<Rightarrow> 'v \<Rightarrow> 'v \<Rightarrow> 'v
     \<Rightarrow> error + 'r \<times> 'g Session" where
  "spec_sign_input E s src_entr vini vini_hmac pseudo_out pseudo_out_hmac
     pseudo_out_alpha spend_key orig_idx =
     (if declared_index E orig_idx \<noteq> input_cursor s then Inl ProtocolSequenceError
      else sign_one E s src_entr vini vini_hmac pseudo_out pseudo_out_hmac
             pseudo_out_alpha spend_key orig_idx)"

text \<open>
  Modelled from the spec: the step modules are missing; these are the handlers above,
  and the two barrier steps and the finalizer as the engine gives them, in the place
  of the modules the dispatcher imports.
\<close>

definition spec_steps :: "('v, 'k, 'r, 'g) engine \<Rightarrow> ('g Session, 'v, 'k, 'r) signing_steps" where
  "spec_steps E =
     \<lparr> init_transaction = spec_init_transaction E,
       set_input = spec_set_input E,
       input_vini = spec_input_vini E,
       all_inputs_set = close_inputs E,
       set_output = spec_set_output E,
       all_outputs_set = spec_all_outputs_set E,
       sign_input = spec_sign_input E,
       final_msg = finalize E \<rparr>"

text \<open>
  An engine to run the handlers on: a request value is a pair of numbers, read as the
  two declared counts or as a declared index and an amount; the sums are integers;
  each step answers with the cursor it has reached.
\<close>

definition plain_engine :: "(nat \<times> nat, unit, nat, int) engine" where
  "plain_engine =
     \<lparr> max_count = 16,
       declared_counts = (\<lambda>v. v),
       declared_index = fst,
       start_session = (\<lambda>s a b v k. Inr (0, s\<lparr>input_count := fst v, output_count := snd v\<rparr>)),
       fold_input = (\<lambda>s v. Inr (Suc (input_cursor s),
          s\<lparr>input_cursor := Suc (input_cursor s),
            pseudo_output_sum := pseudo_output_sum s + int (snd v)\<rparr>)),
       admit_input = (\<lambda>s a b c d. Inr (input_cursor s, s)),
       close_inputs = (\<lambda>s. Inr (input_cursor s, s)),
       fold_output = (\<lambda>s v b c d. Inr (Suc (output_cursor s),
          s\<lparr>output_cursor := Suc (output_cursor s),
            output_commitment_sum := output_commitment_sum s + int (snd v)\<rparr>)),
       outputs_ack = output_cursor,
       sign_one = (\<lambda>s a b c d e f g h. Inr (input_cursor s, s)),
       finalize = (\<lambda>s. Inr (input_cursor s, s)) \<rparr>"

text \<open>The session before anything has been processed.\<close>

definition fresh_session :: "int Session" where
  "fresh_session =
     \<lparr> input_count = 0, output_count = 0, input_cursor = 0, output_cursor = 0,
       pseudo_output_sum = 0, output_commitment_sum = 0 \<rparr>"

section \<open>Cardano: \<^verbatim>\<open>apps/cardano/auxiliary_data.py\<close>\<close>

type_synonym bytes = "8 word list"

datatype CardanoGovernanceRegistrationFormat = CIP15 | CIP36

text \<open>
  \<^verbatim>\<open>CardanoAddressType\<close>: the validation compares with \<^verbatim>\<open>BYRON\<close> only; the
  other members are told apart by their number.
\<close>

datatype CardanoAddressType = BYRON | AddressType nat

record 'a CardanoAddressParametersType =
  address_type :: CardanoAddressType
  address_fields :: 'a

record CardanoGovernanceDelegation =
  delegation_voting_public_key :: bytes
  weight :: nat

record 'a CardanoGovernanceRegistrationParametersType =
  voting_public_key :: "bytes option"
  staking_path :: "nat list"
  reward_address_parameters :: "'a CardanoAddressParametersType"
  nonce :: nat
  format :: CardanoGovernanceRegistrationFormat
  delegations :: "CardanoGovernanceDelegation list"
  voting_purpose :: "nat option"

record 'a CardanoTxAuxiliaryData =
  hash :: "bytes option"
  governance_registration_parameters ::
    "'a CardanoGovernanceRegistrationParametersType option"

text \<open>
  What the module takes from elsewhere in the application:
  \<^verbatim>\<open>SCHEMA_STAKING_ANY_ACCOUNT.match\<close> and
  \<^verbatim>\<open>addresses.validate_address_parameters\<close>, which returns or raises.
\<close>

record 'a cardano_imports =
  SCHEMA_STAKING_ANY_ACCOUNT_match :: "nat list \<Rightarrow> bool"
  validate_address_parameters :: "'a CardanoAddressParametersType \<Rightarrow> error + unit"

definition AUXILIARY_DATA_HASH_SIZE :: nat where
  "AUXILIARY_DATA_HASH_SIZE = 32"

definition GOVERNANCE_VOTING_PUBLIC_KEY_LENGTH :: nat where
  "GOVERNANCE_VOTING_PUBLIC_KEY_LENGTH = 32"

definition MAX_DELEGATION_COUNT :: nat where
  "MAX_DELEGATION_COUNT = 32"

definition assert_cond :: "bool \<Rightarrow> error + unit" where
  "assert_cond condition =
     (if \<not> condition then Inl (ProcessError ''Invalid auxiliary data'') else Inr ())"

text \<open>One statement after another: the second runs when the first has not raised.\<close>

definition and_then :: "error + unit \<Rightarrow> (error + 'a) \<Rightarrow> error + 'a" where
  "and_then first rest = (case first of Inl e \<Rightarrow> Inl e | Inr u \<Rightarrow> rest)"

definition validate_voting_public_key :: "bytes \<Rightarrow> error + unit" where
  "validate_voting_public_key key =
     assert_cond (length key = GOVERNANCE_VOTING_PUBLIC_KEY_LENGTH)"

text \<open>The \<^verbatim>\<open>for\<close> loop of \<^verbatim>\<open>_validate_delegations\<close>.\<close>

fun validate_each_delegation :: "CardanoGovernanceDelegation list \<Rightarrow> error + unit" where
  "validate_each_delegation [] = Inr ()"
| "validate_each_delegation (delegation # rest) =
     and_then (validate_voting_public_key (delegation_voting_public_key delegation))
       (validate_each_delegation rest)"

definition validate_delegations :: "CardanoGovernanceDelegation list \<Rightarrow> error + unit" where
  "validate_delegations ds =
     and_then (assert_cond (length ds \<le> MAX_DELEGATION_COUNT)) (validate_each_delegation ds)"

text \<open>
  \<^verbatim>\<open>_validate_governance_registration_parameters\<close>. The counter
  \<^verbatim>\<open>voting_key_fields_provided\<close> is the number of the two tests that held;
  \<^verbatim>\<open>parameters.delegations\<close> is true when the list is not empty.
\<close>

definition validate_governance_registration_parameters ::
  "'a cardano_imports \<Rightarrow> 'a CardanoGovernanceRegistrationParametersType \<Rightarrow> error + unit" where
  "validate_governance_registration_parameters I parameters =
     (let voting_key_fields_provided =
            (if voting_public_key parameters \<noteq> None then 1 else 0)
            + (if delegations parameters \<noteq> [] then 1 else (0::nat))
      in
      and_then
        (case voting_public_key parameters of
           None \<Rightarrow> Inr ()
         | Some key \<Rightarrow> validate_voting_public_key key)
     (and_then
        (if delegations parameters \<noteq> [] then
           and_then (assert_cond (format parameters = CIP36))
             (validate_delegations (delegations parameters))
         else Inr ())
     (and_then (assert_cond (voting_key_fields_provided = 1))
     (and_then
        (assert_cond (SCHEMA_STAKING_ANY_ACCOUNT_match I (staking_path parameters)))
     (and_then
        (assert_cond (address_type (reward_address_parameters parameters) \<noteq> BYRON))
     (and_then (validate_address_parameters I (reward_address_parameters parameters))
        (if voting_purpose parameters \<noteq> None
         then assert_cond (format parameters = CIP36) else Inr ())))))))"

text \<open>
  Python's truth value of \<^verbatim>\<open>auxiliary_data.hash\<close>: \<^verbatim>\<open>None\<close> and the empty
  byte string are false.
\<close>

fun hash_is_true :: "bytes option \<Rightarrow> bool" where
  "hash_is_true None = False"
| "hash_is_true (Some h) = (h \<noteq> [])"

text \<open>
  \<^verbatim>\<open>validate\<close>. A message object is true whenever it is there, so the second test
  is whether the parameters are not \<^verbatim>\<open>None\<close>.
\<close>

definition validate :: "'a cardano_imports \<Rightarrow> 'a CardanoTxAuxiliaryData \<Rightarrow> error + unit" where
  "validate I auxiliary_data =
     (let fields_provided =
            (if hash_is_true (hash auxiliary_data) then 1 else 0)
            + (if governance_registration_parameters auxiliary_data \<noteq> None then 1 else (0::nat))
      in
      and_then
        (case hash auxiliary_data of
           None \<Rightarrow> Inr ()
         | Some h \<Rightarrow>
             if h \<noteq> [] then assert_cond (length h = AUXILIARY_DATA_HASH_SIZE) else Inr ())
     (and_then
        (case governance_registration_parameters auxiliary_data of
           None \<Rightarrow> Inr ()
         | Some parameters \<Rightarrow> validate_governance_registration_parameters I parameters)
        (assert_cond (fields_provided = 1))))"

text \<open>Imports that accept every staking path and every address.\<close>

definition lenient_imports :: "unit cardano_imports" where
  "lenient_imports =
     \<lparr> SCHEMA_STAKING_ANY_ACCOUNT_match = (\<lambda>path. True),
       validate_address_parameters = (\<lambda>a. Inr ()) \<rparr>"

text \<open>A registration with one voting key of 32 bytes and no delegations.\<close>

definition sample_registration :: "unit CardanoGovernanceRegistrationParametersType" where
  "sample_registration =
     \<lparr> voting_public_key = Some (replicate 32 0),
       staking_path = [1852, 1815, 0, 2, 0],
       reward_address_parameters = \<lparr> address_type = AddressType 14, address_fields = () \<rparr>,
       nonce = 0,
       format = CIP15,
       delegations = [],
       voting_purpose = None \<rparr>"

section \<open>Recovery: \<^verbatim>\<open>apps/management/recovery_device/homescreen.py\<close>\<close>

text \<open>
  The calls into the storage modules that \<^verbatim>\<open>recovery_process\<close> makes on the device
  storage \<open>'st\<close>: \<^verbatim>\<open>storage_recovery.is_dry_run\<close>,
  \<^verbatim>\<open>storage_recovery.end_progress\<close> and \<^verbatim>\<open>storage.wipe\<close>.
\<close>

record 'st storage_calls =
  is_dry_run :: "'st \<Rightarrow> bool"
  end_progress :: "'st \<Rightarrow> 'st"
  wipe :: "'st \<Rightarrow> 'st"

datatype storage_call = EndProgress | Wipe

text \<open>
  The device as \<^verbatim>\<open>recovery_process\<close> sees it: the storage, the calls
  \<^verbatim>\<open>end_progress\<close> and \<^verbatim>\<open>wipe\<close> made on it, in order, and the module variable
  \<^verbatim>\<open>wire.AVOID_RESTARTING_FOR\<close>, a tuple of message type names.
\<close>

record 'st device =
  storage :: 'st
  calls :: "storage_call list"
  AVOID_RESTARTING_FOR :: "string list"

text \<open>
  \<^verbatim>\<open>recovery_process\<close>. The dialogue \<^verbatim>\<open>_continue_recovery_process\<close> runs
  the \<^verbatim>\<open>layout\<close> and \<^verbatim>\<open>recover\<close> modules, where
  \<^verbatim>\<open>RecoveryAborted\<close> is raised; it is a parameter: from the storage it finds, it
  returns a result or raises, and leaves the storage as it has changed it.
\<close>

definition recovery_process ::
  "'st storage_calls \<Rightarrow> ('st \<Rightarrow> (error + 'r) \<times> 'st) \<Rightarrow> 'st device \<Rightarrow> (error + 'r) \<times> 'st device" where
  "recovery_process S continue_recovery_process dev =
     (let dev1 = dev\<lparr>AVOID_RESTARTING_FOR := [''Initialize'', ''GetFeatures'']\<rparr> in
      case continue_recovery_process (storage dev1) of
        (Inr result, st) \<Rightarrow> (Inr result, dev1\<lparr>storage := st\<rparr>)
      | (Inl e, st) \<Rightarrow>
          if e = RecoveryAborted then
            (let dry_run = is_dry_run S st in
             if dry_run then
               (Inl ActionCancelled,
                dev1\<lparr>storage := end_progress S st, calls := calls dev1 @ [EndProgress]\<rparr>)
             else
               (Inl ActionCancelled,
                dev1\<lparr>storage := wipe S st, calls := calls dev1 @ [Wipe]\<rparr>))
          else (Inl e, dev1\<lparr>storage := st\<rparr>))"

text \<open>
  A storage to run the recovery on: whether the device holds a seed, and the recovery
  record when a recovery is in progress, which says whether it is a dry run.
\<close>

record sample_storage =
  has_seed :: bool
  recovery_in_progress :: "bool option"

definition sample_calls :: "sample_storage storage_calls" where
  "sample_calls =
     \<lparr> is_dry_run = (\<lambda>st. recovery_in_progress st = Some True),
       end_progress = (\<lambda>st. st\<lparr>recovery_in_progress := None\<rparr>),
       wipe = (\<lambda>st. \<lparr> has_seed = False, recovery_in_progress = None \<rparr>) \<rparr>"

subsection \<open>Requests handled in the order of the phase table\<close>

text \<open>
  A run follows the phase table: every request handled after another has a type the
  table lets follow the request handled before it, and every accept tuple offered to
  \<^verbatim>\<open>read_any\<close> is the row of the request just handled. \<open>prev\<close> is the type of
  the request handled last, if any.
\<close>

fun follows_table :: "MessageType option \<Rightarrow> 'r event list \<Rightarrow> bool" where
  "follows_table prev [] = True"
| "follows_table prev (Handled k r # evs) =
     ((case prev of None \<Rightarrow> True | Some p \<Rightarrow> k \<in> advances_to p)
      \<and> follows_table (Some k) evs)"
| "follows_table prev (ReadAny acc # evs) =
     ((case prev of None \<Rightarrow> False | Some p \<Rightarrow> set acc = advances_to p)
      \<and> follows_table prev evs)"
| "follows_table prev (StateCreated # evs) = follows_table prev evs"
| "follows_table prev (Written r # evs) = follows_table prev evs"

subsection \<open>The offload authenticator of the specification\<close>







section \<open>Properties of the Monero dispatcher\<close>

lemma with_accept_Inr:
  "with_accept acc res = Inr (r, acc', s') \<longleftrightarrow> res = Inr (r, s') \<and> acc' = acc"
  by (auto simp: with_accept_def split: sum.splits)

text \<open>
  C2. For each of the eight request types it handles, the dispatcher returns exactly
  when the handler of that type returns, and then with the response and the message
  types of the column ``On success advances to'': after INIT only SET_INPUT, after
  SET_INPUT only SET_INPUT or INPUT_VINI, after INPUT_VINI only INPUT_VINI or
  ALL_INPUTS_SET, after ALL_INPUTS_SET only SET_OUTPUT, after SET_OUTPUT only
  SET_OUTPUT or ALL_OUTPUTS_SET, after ALL_OUTPUTS_SET only SIGN_INPUT, after
  SIGN_INPUT only SIGN_INPUT or FINAL; after FINAL it returns \<^verbatim>\<open>None\<close> and no
  further request is accepted. Whatever it returns with a response is the row of the
  table for the type of the request.
\<close>

theorem dispatch_accepts_phase_table:
  "sign_tx_dispatch st state (InitRequest address_n network_type tsx_data) keychain =
     (case init_transaction st state address_n network_type tsx_data keychain of
        Inl e \<Rightarrow> Inl e
      | Inr (r, s') \<Rightarrow> Inr (r, Some [MoneroTransactionSetInputRequest], s'))
   \<and> sign_tx_dispatch st state (SetInputRequest src_entr) keychain =
     (case set_input st state src_entr of
        Inl e \<Rightarrow> Inl e
      | Inr (r, s') \<Rightarrow>
          Inr (r, Some [MoneroTransactionSetInputRequest,
                        MoneroTransactionInputViniRequest], s'))
   \<and> sign_tx_dispatch st state (InputViniRequest src_entr vini vini_hmac orig_idx) keychain =
     (case input_vini st state src_entr vini vini_hmac orig_idx of
        Inl e \<Rightarrow> Inl e
      | Inr (r, s') \<Rightarrow>
          Inr (r, Some [MoneroTransactionInputViniRequest,
                        MoneroTransactionAllInputsSetRequest], s'))
   \<and> sign_tx_dispatch st state AllInputsSetRequest keychain =
     (case all_inputs_set st state of
        Inl e \<Rightarrow> Inl e
      | Inr (r, s') \<Rightarrow> Inr (r, Some [MoneroTransactionSetOutputRequest], s'))
   \<and> sign_tx_dispatch st state
       (SetOutputRequest is_offloaded_bp dst dst_hmac rsig_data) keychain =
     (case set_output st state dst dst_hmac rsig_data (py_bool is_offloaded_bp) of
        Inl e \<Rightarrow> Inl e
      | Inr (r, s') \<Rightarrow>
          Inr (r, Some [MoneroTransactionSetOutputRequest,
                        MoneroTransactionAllOutSetRequest], s'))
   \<and> sign_tx_dispatch st state AllOutSetRequest keychain =
     (case all_outputs_set st state of
        Inl e \<Rightarrow> Inl e
      | Inr (r, s') \<Rightarrow> Inr (r, Some [MoneroTransactionSignInputRequest], s'))
   \<and> sign_tx_dispatch st state
       (SignInputRequest src_entr vini vini_hmac pseudo_out pseudo_out_hmac
          pseudo_out_alpha spend_key orig_idx) keychain =
     (case sign_input st state src_entr vini vini_hmac pseudo_out pseudo_out_hmac
             pseudo_out_alpha spend_key orig_idx of
        Inl e \<Rightarrow> Inl e
      | Inr (r, s') \<Rightarrow>
          Inr (r, Some [MoneroTransactionSignInputRequest,
                        MoneroTransactionFinalRequest], s'))
   \<and> sign_tx_dispatch st state FinalRequest keychain =
     (case final_msg st state of
        Inl e \<Rightarrow> Inl e
      | Inr (r, s') \<Rightarrow> Inr (r, None, s'))
   \<and> (sign_tx_dispatch st state m keychain = Inr (res, acc, state') \<longrightarrow>
        accepted_next acc = advances_to (MESSAGE_WIRE_TYPE m)
        \<and> (acc = None \<longleftrightarrow> MESSAGE_WIRE_TYPE m = MoneroTransactionFinalRequest))"
proof -
  have table: "sign_tx_dispatch st state m keychain = Inr (res, acc, state') \<longrightarrow>
        accepted_next acc = advances_to (MESSAGE_WIRE_TYPE m)
        \<and> (acc = None \<longleftrightarrow> MESSAGE_WIRE_TYPE m = MoneroTransactionFinalRequest)"
    by (cases m) (auto simp: with_accept_Inr)
  show ?thesis
    using table by (simp add: with_accept_def)
qed

theorem dispatch_accepts_phase_table_witness:
  "sign_tx_dispatch counting_steps 0 (InitRequest 0 0 (0::nat)) () =
     Inr (0, Some [MoneroTransactionSetInputRequest], 1)
   \<and> sign_tx_dispatch counting_steps 1 (SetInputRequest (0::nat)) () =
     Inr (1, Some [MoneroTransactionSetInputRequest, MoneroTransactionInputViniRequest], 2)
   \<and> sign_tx_dispatch counting_steps 2 (InputViniRequest 0 0 0 (0::nat)) () =
     Inr (2, Some [MoneroTransactionInputViniRequest,
                   MoneroTransactionAllInputsSetRequest], 3)
   \<and> sign_tx_dispatch counting_steps 3 (AllInputsSetRequest :: nat msg) () =
     Inr (3, Some [MoneroTransactionSetOutputRequest], 4)
   \<and> sign_tx_dispatch counting_steps 4 (SetOutputRequest None 0 0 (0::nat)) () =
     Inr (4, Some [MoneroTransactionSetOutputRequest, MoneroTransactionAllOutSetRequest], 5)
   \<and> sign_tx_dispatch counting_steps 5 (AllOutSetRequest :: nat msg) () =
     Inr (5, Some [MoneroTransactionSignInputRequest], 6)
   \<and> sign_tx_dispatch counting_steps 6 (SignInputRequest 0 0 0 0 0 0 0 (0::nat)) () =
     Inr (6, Some [MoneroTransactionSignInputRequest, MoneroTransactionFinalRequest], 7)
   \<and> sign_tx_dispatch counting_steps 7 (FinalRequest :: nat msg) () = Inr (7, None, 8)
   \<and> accepted_next (Some [MoneroTransactionSignInputRequest, MoneroTransactionFinalRequest])
       = advances_to (MESSAGE_WIRE_TYPE (SignInputRequest 0 0 0 0 0 0 0 (0::nat)))"
proof -
  note t = dispatch_accepts_phase_table [where st = counting_steps and keychain = "()"]
  note r1 = t [where state = 0 and address_n = 0 and network_type = 0 and tsx_data = "0::nat",
      THEN conjunct1]
  note r2 = t [where state = 1 and src_entr = "0::nat", THEN conjunct2, THEN conjunct1]
  note r3 = t [where state = 2 and src_entr = "0::nat" and vini = 0 and vini_hmac = 0
      and orig_idx = 0, THEN conjunct2, THEN conjunct2, THEN conjunct1]
  note r4 = t [where state = 3 and src_entr = "0::nat",
      THEN conjunct2, THEN conjunct2, THEN conjunct2, THEN conjunct1]
  note r5 = t [where state = 4 and is_offloaded_bp = None and dst = "0::nat" and dst_hmac = 0
      and rsig_data = 0,
      THEN conjunct2, THEN conjunct2, THEN conjunct2, THEN conjunct2, THEN conjunct1]
  note r6 = t [where state = 5 and src_entr = "0::nat",
      THEN conjunct2, THEN conjunct2, THEN conjunct2, THEN conjunct2, THEN conjunct2,
      THEN conjunct1]
  note r7 = t [where state = 6 and src_entr = "0::nat" and vini = 0 and vini_hmac = 0
      and pseudo_out = 0 and pseudo_out_hmac = 0 and pseudo_out_alpha = 0 and spend_key = 0
      and orig_idx = 0,
      THEN conjunct2, THEN conjunct2, THEN conjunct2, THEN conjunct2, THEN conjunct2,
      THEN conjunct2, THEN conjunct1]
  note r8 = t [where state = 7 and src_entr = "0::nat",
      THEN conjunct2, THEN conjunct2, THEN conjunct2, THEN conjunct2, THEN conjunct2,
      THEN conjunct2, THEN conjunct2, THEN conjunct1]
  have run: "sign_tx_dispatch counting_steps 6 (SignInputRequest 0 0 0 0 0 0 0 (0::nat)) () =
     Inr (6, Some [MoneroTransactionSignInputRequest, MoneroTransactionFinalRequest], 7)"
    by (subst r7) (simp add: counting_steps_def)
  note r9 = t [where state = 6 and m = "SignInputRequest 0 0 0 0 0 0 0 (0::nat)"
      and src_entr = "0::nat",
      THEN conjunct2, THEN conjunct2, THEN conjunct2, THEN conjunct2, THEN conjunct2,
      THEN conjunct2, THEN conjunct2, THEN conjunct2, rule_format, OF run, THEN conjunct1]
  have "sign_tx_dispatch counting_steps 0 (InitRequest 0 0 (0::nat)) () =
       Inr (0, Some [MoneroTransactionSetInputRequest], 1)"
    by (subst r1) (simp add: counting_steps_def)
  moreover have "sign_tx_dispatch counting_steps 1 (SetInputRequest (0::nat)) () =
       Inr (1, Some [MoneroTransactionSetInputRequest, MoneroTransactionInputViniRequest], 2)"
    by (subst r2) (simp add: counting_steps_def)
  moreover have "sign_tx_dispatch counting_steps 2 (InputViniRequest 0 0 0 (0::nat)) () =
       Inr (2, Some [MoneroTransactionInputViniRequest,
                     MoneroTransactionAllInputsSetRequest], 3)"
    by (subst r3) (simp add: counting_steps_def)
  moreover have "sign_tx_dispatch counting_steps 3 (AllInputsSetRequest :: nat msg) () =
       Inr (3, Some [MoneroTransactionSetOutputRequest], 4)"
    by (subst r4) (simp add: counting_steps_def)
  moreover have "sign_tx_dispatch counting_steps 4 (SetOutputRequest None 0 0 (0::nat)) () =
       Inr (4, Some [MoneroTransactionSetOutputRequest, MoneroTransactionAllOutSetRequest], 5)"
    by (subst r5) (simp add: counting_steps_def)
  moreover have "sign_tx_dispatch counting_steps 5 (AllOutSetRequest :: nat msg) () =
       Inr (5, Some [MoneroTransactionSignInputRequest], 6)"
    by (subst r6) (simp add: counting_steps_def)
  moreover have "sign_tx_dispatch counting_steps 7 (FinalRequest :: nat msg) () =
       Inr (7, None, 8)"
    by (subst r8) (simp add: counting_steps_def)
  ultimately show ?thesis using run r9 by simp
qed


lemma dispatch_accept_later:
  "sign_tx_dispatch st state m keychain = Inr (r, Some acc, state') \<Longrightarrow>
     list_all (\<lambda>k. phase_rank (MESSAGE_WIRE_TYPE m) \<le> phase_rank k) acc"
  by (cases m) (auto simp: with_accept_Inr)

lemma never_regresses_mono:
  "never_regresses hi evs \<Longrightarrow> lo \<le> hi \<Longrightarrow> never_regresses lo evs"
proof (induction evs arbitrary: lo hi)
  case Nil
  then show ?case by simp
next
  case (Cons ev evs)
  show ?case
  proof (cases ev)
    case (ReadAny acc)
    with Cons show ?thesis
      by (auto simp: list_all_iff intro: order_trans)
  qed (use Cons in auto)
qed

lemma never_regresses_sorted:
  "never_regresses lo evs \<Longrightarrow>
     sorted (map phase_rank (handled_kinds evs))
     \<and> list_all (\<lambda>k. lo \<le> phase_rank k) (handled_kinds evs)"
proof (induction evs arbitrary: lo)
  case Nil
  then show ?case by simp
next
  case (Cons ev evs)
  show ?case
  proof (cases ev)
    case (Handled k r)
    with Cons.prems have here: "lo \<le> phase_rank k" and rest: "never_regresses (phase_rank k) evs"
      by simp_all
    from Cons.IH [OF rest] have
      srt: "sorted (map phase_rank (handled_kinds evs))" and
      above: "list_all (\<lambda>j. phase_rank k \<le> phase_rank j) (handled_kinds evs)"
      by simp_all
    from above here have "list_all (\<lambda>j. lo \<le> phase_rank j) (handled_kinds evs)"
      by (auto simp: list_all_iff)
    with srt above here Handled show ?thesis
      by (auto simp: list_all_iff)
  qed (use Cons in auto)
qed

text \<open>
  One iteration that is followed by another: the events of the iteration come before
  those of the rest of the run.
\<close>

lemma loop_step:
  assumes "sign_tx_dispatch st state m keychain = Inr (r, Some acc, state')"
    and "ctx_write io r ctx = Inr ctx1"
    and "read_any io acc ctx1 = Inr (m', ctx2)"
    and "sign_tx_loop n st io keychain state' m' ctx2 = (out2, c2, evs2)"
  shows "sign_tx_loop (Suc n) st io keychain state m ctx =
     (out2, c2, Handled (MESSAGE_WIRE_TYPE m) r # Written r # ReadAny acc # evs2)"
  using assms by simp

lemma loop_never_regresses:
  assumes io: "\<And>acc c m c'. read_any io acc c = Inr (m, c') \<Longrightarrow> MESSAGE_WIRE_TYPE m \<in> set acc"
  shows "sign_tx_loop n st io keychain state m ctx = (out, c', evs) \<Longrightarrow>
     never_regresses (phase_rank (MESSAGE_WIRE_TYPE m)) evs"
proof (induction n arbitrary: state m ctx out c' evs)
  case 0
  then show ?case by simp
next
  case (Suc n)
  show ?case
  proof (cases "sign_tx_dispatch st state m keychain")
    case (Inl e)
    with Suc.prems show ?thesis by simp
  next
    case (Inr res)
    obtain r accept state' where res: "res = (r, accept, state')" by (cases res)
    show ?thesis
    proof (cases accept)
      case None
      with Suc.prems Inr res show ?thesis by auto
    next
      case (Some acc)
      note later = dispatch_accept_later [OF Inr [unfolded res Some]]
      show ?thesis
      proof (cases "ctx_write io r ctx")
        case (Inl e)
        with Suc.prems Inr res Some show ?thesis by auto
      next
        case w: (Inr ctx1)
        show ?thesis
        proof (cases "read_any io acc ctx1")
          case (Inl e)
          with Suc.prems Inr res Some w later show ?thesis by auto
        next
          case rd: (Inr nxt)
          obtain m' ctx2 where nxt: "nxt = (m', ctx2)" by (cases nxt)
          obtain out2 c2 evs2 where rec:
            "sign_tx_loop n st io keychain state' m' ctx2 = (out2, c2, evs2)"
            by (cases "sign_tx_loop n st io keychain state' m' ctx2")
          have mem: "MESSAGE_WIRE_TYPE m' \<in> set acc"
            using io rd nxt by blast
          with later have le: "phase_rank (MESSAGE_WIRE_TYPE m) \<le> phase_rank (MESSAGE_WIRE_TYPE m')"
            by (simp add: list_all_iff)
          have "never_regresses (phase_rank (MESSAGE_WIRE_TYPE m)) evs2"
            using never_regresses_mono [OF Suc.IH [OF rec] le] .
          moreover have "evs = Handled (MESSAGE_WIRE_TYPE m) r # Written r # ReadAny acc # evs2"
            using Suc.prems loop_step [OF Inr [unfolded res Some] w rd [unfolded nxt] rec] by simp
          ultimately show ?thesis using later by simp
        qed
      qed
    qed
  qed
qed


lemma loop_raises_at_dispatch:
  "sign_tx_dispatch st state m keychain = Inl e \<Longrightarrow>
     sign_tx_loop (Suc n) st io keychain state m ctx = (Raised e, ctx, [])"
  by simp

lemma scripted_read_expected:
  "scripted_read acc c = Inr (m, c') \<Longrightarrow> MESSAGE_WIRE_TYPE m \<in> set acc"
  by (cases c) (auto split: if_splits)

lemma dispatch_accept_table:
  "sign_tx_dispatch st state m keychain = Inr (r, Some acc, state') \<Longrightarrow>
     set acc = advances_to (MESSAGE_WIRE_TYPE m)"
  by (cases m) (auto simp: with_accept_Inr)

lemma loop_follows_table:
  assumes io: "\<And>acc c m c'. read_any io acc c = Inr (m, c') \<Longrightarrow> MESSAGE_WIRE_TYPE m \<in> set acc"
  shows "sign_tx_loop n st io keychain state m ctx = (out, c', evs) \<Longrightarrow>
     (case prev of None \<Rightarrow> True | Some p \<Rightarrow> MESSAGE_WIRE_TYPE m \<in> advances_to p) \<Longrightarrow>
     follows_table prev evs"
proof (induction n arbitrary: state m ctx out c' evs prev)
  case 0
  then show ?case by simp
next
  case (Suc n)
  show ?case
  proof (cases "sign_tx_dispatch st state m keychain")
    case (Inl e)
    with Suc.prems show ?thesis by simp
  next
    case (Inr res)
    obtain r accept state' where res: "res = (r, accept, state')" by (cases res)
    show ?thesis
    proof (cases accept)
      case None
      with Suc.prems Inr res show ?thesis by auto
    next
      case (Some acc)
      note row = dispatch_accept_table [OF Inr [unfolded res Some]]
      show ?thesis
      proof (cases "ctx_write io r ctx")
        case (Inl e)
        with Suc.prems Inr res Some show ?thesis by auto
      next
        case w: (Inr ctx1)
        show ?thesis
        proof (cases "read_any io acc ctx1")
          case (Inl e)
          with Suc.prems Inr res Some w row show ?thesis by auto
        next
          case rd: (Inr nxt)
          obtain m' ctx2 where nxt: "nxt = (m', ctx2)" by (cases nxt)
          obtain out2 c2 evs2 where rec:
            "sign_tx_loop n st io keychain state' m' ctx2 = (out2, c2, evs2)"
            by (cases "sign_tx_loop n st io keychain state' m' ctx2")
          have "MESSAGE_WIRE_TYPE m' \<in> set acc"
            using io rd nxt by blast
          with row have "MESSAGE_WIRE_TYPE m' \<in> advances_to (MESSAGE_WIRE_TYPE m)"
            by simp
          then have rest: "follows_table (Some (MESSAGE_WIRE_TYPE m)) evs2"
            using Suc.IH [OF rec, of "Some (MESSAGE_WIRE_TYPE m)"] by simp
          have "evs = Handled (MESSAGE_WIRE_TYPE m) r # Written r # ReadAny acc # evs2"
            using Suc.prems(1) loop_step [OF Inr [unfolded res Some] w rd [unfolded nxt] rec]
            by simp
          with rest row Suc.prems(2) show ?thesis by simp
        qed
      qed
    qed
  qed
qed

text \<open>
  C3 (as amended). A request that \<^verbatim>\<open>sign_tx\<close> reads and whose type is not legal
  after the request handled last is rejected and ends the session: it is never
  accepted, retried or dispatched to a handler of another phase. The error is not a
  ProtocolSequenceError: a request of a type the dispatcher does not handle raises
  \<^verbatim>\<open>wire.DataError("Unknown message")\<close>, with no handler called, nothing written and
  no further request read; a request of a type outside the accept tuple is refused by
  \<^verbatim>\<open>ctx.read_any\<close>, whose error leaves \<^verbatim>\<open>sign_tx\<close> as it is, after the one
  response written before the read. So, \<^verbatim>\<open>read_any\<close> returning only messages of
  the types it was given, every run follows the phase table: each request handled
  after another has a type the table lets follow it, and each accept tuple is the row
  of the request just handled.
\<close>

theorem rejected_request_ends_run:
  "sign_tx_loop (Suc n) st io keychain state (OtherMessage t) ctx =
     (Raised (DataError ''Unknown message''), ctx, [])
   \<and> (sign_tx_dispatch st state m keychain = Inr (r, Some acc, state')
        \<longrightarrow> ctx_write io r ctx = Inr ctx1
        \<longrightarrow> read_any io acc ctx1 = Inl e
        \<longrightarrow> sign_tx_loop (Suc n) st io keychain state m ctx =
              (Raised e, ctx1, [Handled (MESSAGE_WIRE_TYPE m) r, Written r, ReadAny acc]))
   \<and> ((\<forall>acc c m' c'. read_any io acc c = Inr (m', c') \<longrightarrow> MESSAGE_WIRE_TYPE m' \<in> set acc)
        \<longrightarrow> sign_tx k st io State ctx0 m0 keychain = (out, c2, evs)
        \<longrightarrow> follows_table None evs)"
proof -
  have run: "follows_table None evs"
    if io: "\<forall>acc c m' c'. read_any io acc c = Inr (m', c') \<longrightarrow> MESSAGE_WIRE_TYPE m' \<in> set acc"
      and tx: "sign_tx k st io State ctx0 m0 keychain = (out, c2, evs)"
  proof -
    obtain evs' where lp: "sign_tx_loop k st io keychain (State ctx0) m0 ctx0 = (out, c2, evs')"
      and evs: "evs = StateCreated # evs'"
      using tx by (auto simp: sign_tx_def split: prod.splits)
    have "follows_table None evs'"
      using loop_follows_table [OF _ lp, of None] io by auto
    with evs show ?thesis by simp
  qed
  then show ?thesis by simp
qed

theorem rejected_request_ends_run_witness:
  "sign_tx_loop (Suc 0) counting_steps scripted_host () 0 (OtherMessage 7) ([] :: nat msg list) =
     (Raised (DataError ''Unknown message''), [], [])
   \<and> sign_tx_loop (Suc 0) counting_steps scripted_host () 0 (InitRequest 0 0 0)
       [FinalRequest :: nat msg] =
     (Raised (OtherError ''unexpected message''), [FinalRequest],
      [Handled MoneroTransactionInitRequest 0, Written 0,
       ReadAny [MoneroTransactionSetInputRequest]])
   \<and> sign_tx 3 counting_steps scripted_host (\<lambda>c. 0)
       [SetInputRequest 0, AllOutSetRequest, SetInputRequest 1 :: nat msg]
       (InitRequest 0 0 0) () =
     (Raised (OtherError ''unexpected message''), [AllOutSetRequest, SetInputRequest 1],
      [StateCreated,
       Handled MoneroTransactionInitRequest 0, Written 0,
       ReadAny [MoneroTransactionSetInputRequest],
       Handled MoneroTransactionSetInputRequest 1, Written 1,
       ReadAny [MoneroTransactionSetInputRequest, MoneroTransactionInputViniRequest]])
   \<and> follows_table None
      [StateCreated,
       Handled MoneroTransactionInitRequest (0::nat), Written 0,
       ReadAny [MoneroTransactionSetInputRequest],
       Handled MoneroTransactionSetInputRequest 1, Written 1,
       ReadAny [MoneroTransactionSetInputRequest, MoneroTransactionInputViniRequest]]"
proof -
  have d: "sign_tx_dispatch counting_steps 0 (InitRequest 0 0 0 :: nat msg) () =
      Inr (0, Some [MoneroTransactionSetInputRequest], Suc 0)"
    by (simp add: counting_steps_def with_accept_def)
  have w: "ctx_write (scripted_host :: (nat msg list, nat, nat) wire_context) 0 [FinalRequest]
      = Inr [FinalRequest]"
    by (simp add: scripted_host_def)
  have rd: "read_any (scripted_host :: (nat msg list, nat, nat) wire_context)
      [MoneroTransactionSetInputRequest] [FinalRequest] = Inl (OtherError ''unexpected message'')"
    by (simp add: scripted_host_def)
  have host: "\<forall>acc c m' c'.
      read_any (scripted_host :: (nat msg list, nat, nat) wire_context) acc c = Inr (m', c')
        \<longrightarrow> MESSAGE_WIRE_TYPE m' \<in> set acc"
    by (auto simp: scripted_host_def dest: scripted_read_expected)
  have run: "sign_tx 3 counting_steps scripted_host (\<lambda>c. 0)
       [SetInputRequest 0, AllOutSetRequest, SetInputRequest 1 :: nat msg]
       (InitRequest 0 0 0) () =
     (Raised (OtherError ''unexpected message''), [AllOutSetRequest, SetInputRequest 1],
      [StateCreated,
       Handled MoneroTransactionInitRequest 0, Written 0,
       ReadAny [MoneroTransactionSetInputRequest],
       Handled MoneroTransactionSetInputRequest 1, Written 1,
       ReadAny [MoneroTransactionSetInputRequest, MoneroTransactionInputViniRequest]])"
    by (simp add: sign_tx_def counting_steps_def scripted_host_def with_accept_def
        eval_nat_numeral)
  have "sign_tx_loop (Suc 0) counting_steps scripted_host () 0 (OtherMessage 7)
        ([] :: nat msg list) = (Raised (DataError ''Unknown message''), [], [])"
    using rejected_request_ends_run
      [where n = 0 and st = counting_steps and io = scripted_host and state = 0 and t = 7]
    by blast
  moreover have "sign_tx_loop (Suc 0) counting_steps scripted_host () 0 (InitRequest 0 0 0)
        [FinalRequest :: nat msg] =
      (Raised (OtherError ''unexpected message''), [FinalRequest],
       [Handled MoneroTransactionInitRequest 0, Written 0,
        ReadAny [MoneroTransactionSetInputRequest]])"
    using rejected_request_ends_run
      [where n = 0 and st = counting_steps and io = scripted_host and state = 0
         and m = "InitRequest 0 0 0" and ctx = "[FinalRequest]"] d w rd
    by simp
  moreover have "follows_table None
      [StateCreated,
       Handled MoneroTransactionInitRequest (0::nat), Written 0,
       ReadAny [MoneroTransactionSetInputRequest],
       Handled MoneroTransactionSetInputRequest 1, Written 1,
       ReadAny [MoneroTransactionSetInputRequest, MoneroTransactionInputViniRequest]]"
    using rejected_request_ends_run
      [where io = "scripted_host :: (nat msg list, nat, nat) wire_context"
         and st = counting_steps and k = 3 and State = "\<lambda>c. 0"
         and ctx0 = "[SetInputRequest 0, AllOutSetRequest, SetInputRequest 1]"
         and ?m0.0 = "InitRequest 0 0 0" and keychain = "()"] host run
    by blast
  ultimately show ?thesis using run by simp
qed

theorem unknown_request_is_data_error:
  "sign_tx_dispatch counting_steps 0 (OtherMessage 7 :: nat msg) () =
     Inl (DataError ''Unknown message'')
   \<and> sign_tx_dispatch counting_steps 0 (OtherMessage 7 :: nat msg) () \<noteq>
     Inl ProtocolSequenceError"
  by simp

text \<open>
  C4. In a run in which every request read has a type of the accept tuple returned
  with the previous response, the phase never regresses in the order INIT <
  SET_INPUT < INPUT_VINI < ALL_INPUTS_SET < SET_OUTPUT < ALL_OUTPUTS_SET < SIGN_INPUT
  < FINAL: the types of the requests handled are in non-decreasing order, and no
  accept tuple offered to \<^verbatim>\<open>read_any\<close> holds a type of an earlier phase than a
  request already handled. This holds of every state the loop reaches, whether the
  run has returned, raised or is still going.
\<close>

theorem phase_never_regresses:
  assumes "\<forall>acc c m' c'. read_any io acc c = Inr (m', c') \<longrightarrow> MESSAGE_WIRE_TYPE m' \<in> set acc"
    and "sign_tx n st io State ctx m keychain = (out, c1, evs)"
  shows "never_regresses (phase_rank (MESSAGE_WIRE_TYPE m)) evs
       \<and> sorted (map phase_rank (handled_kinds evs))"
proof -
  obtain evs' where run: "sign_tx_loop n st io keychain (State ctx) m ctx = (out, c1, evs')"
    and evs: "evs = StateCreated # evs'"
    using assms(2) by (auto simp: sign_tx_def split: prod.splits)
  have "never_regresses (phase_rank (MESSAGE_WIRE_TYPE m)) evs'"
    using loop_never_regresses [OF _ run] assms(1) by blast
  then have nr: "never_regresses (phase_rank (MESSAGE_WIRE_TYPE m)) evs"
    using evs by simp
  with never_regresses_sorted [OF nr] show ?thesis by simp
qed

theorem phase_never_regresses_witness:
  "sign_tx 4 counting_steps scripted_host (\<lambda>c. 0)
       [SetInputRequest 0, SetInputRequest 1, InputViniRequest 0 0 0 0 :: nat msg]
       (InitRequest 0 0 0) () =
     (Raised (OtherError ''no message''), [],
      [StateCreated,
       Handled MoneroTransactionInitRequest 0, Written 0,
       ReadAny [MoneroTransactionSetInputRequest],
       Handled MoneroTransactionSetInputRequest 1, Written 1,
       ReadAny [MoneroTransactionSetInputRequest, MoneroTransactionInputViniRequest],
       Handled MoneroTransactionSetInputRequest 2, Written 2,
       ReadAny [MoneroTransactionSetInputRequest, MoneroTransactionInputViniRequest],
       Handled MoneroTransactionInputViniRequest 3, Written 3,
       ReadAny [MoneroTransactionInputViniRequest, MoneroTransactionAllInputsSetRequest]])
   \<and> sorted (map phase_rank
       [MoneroTransactionInitRequest, MoneroTransactionSetInputRequest,
        MoneroTransactionSetInputRequest, MoneroTransactionInputViniRequest])"
proof -
  have host: "\<forall>acc c m' c'.
      read_any (scripted_host :: (nat msg list, nat, nat) wire_context) acc c = Inr (m', c')
        \<longrightarrow> MESSAGE_WIRE_TYPE m' \<in> set acc"
    by (auto simp: scripted_host_def dest: scripted_read_expected)
  have run: "sign_tx 4 counting_steps scripted_host (\<lambda>c. 0)
       [SetInputRequest 0, SetInputRequest 1, InputViniRequest 0 0 0 0 :: nat msg]
       (InitRequest 0 0 0) () =
     (Raised (OtherError ''no message''), [],
      [StateCreated,
       Handled MoneroTransactionInitRequest 0, Written 0,
       ReadAny [MoneroTransactionSetInputRequest],
       Handled MoneroTransactionSetInputRequest 1, Written 1,
       ReadAny [MoneroTransactionSetInputRequest, MoneroTransactionInputViniRequest],
       Handled MoneroTransactionSetInputRequest 2, Written 2,
       ReadAny [MoneroTransactionSetInputRequest, MoneroTransactionInputViniRequest],
       Handled MoneroTransactionInputViniRequest 3, Written 3,
       ReadAny [MoneroTransactionInputViniRequest, MoneroTransactionAllInputsSetRequest]])"
    by (simp add: sign_tx_def counting_steps_def scripted_host_def with_accept_def
        eval_nat_numeral)
  from phase_never_regresses [OF host run] run show ?thesis by simp
qed



section \<open>Properties of the step handlers of the specification\<close>

text \<open>
  C1. With the step handlers of the specification, the request ALL_OUTPUTS_SET
  compares the running pseudo-output sum with the running output-commitment sum. If
  they differ the dispatcher raises IntegrityError, and the loop ends with that error
  with nothing written and no further request read, so no input is signed; if they
  are equal it returns the response together with SIGN_INPUT as the only request
  accepted next.
\<close>

theorem balance_check_at_all_outputs_set:
  "sign_tx_dispatch (spec_steps E) s AllOutSetRequest keychain =
     (if pseudo_output_sum s = output_commitment_sum s
      then Inr (outputs_ack E s, Some [MoneroTransactionSignInputRequest], s)
      else Inl IntegrityError)
   \<and> (pseudo_output_sum s \<noteq> output_commitment_sum s \<longrightarrow>
        sign_tx_loop (Suc n) (spec_steps E) io keychain s AllOutSetRequest ctx =
          (Raised IntegrityError, ctx, []))"
  by (simp add: spec_steps_def spec_all_outputs_set_def with_accept_def)

theorem balance_check_at_all_outputs_set_witness:
  "sign_tx_dispatch (spec_steps plain_engine)
       (fresh_session\<lparr>pseudo_output_sum := 5, output_commitment_sum := 5\<rparr>)
       (AllOutSetRequest :: (nat \<times> nat) msg) () =
     Inr (0, Some [MoneroTransactionSignInputRequest],
          fresh_session\<lparr>pseudo_output_sum := 5, output_commitment_sum := 5\<rparr>)
   \<and> sign_tx_loop (Suc 0) (spec_steps plain_engine) scripted_host ()
       (fresh_session\<lparr>pseudo_output_sum := 5, output_commitment_sum := 6\<rparr>)
       AllOutSetRequest ([] :: (nat \<times> nat) msg list) =
     (Raised IntegrityError, [], [])"
proof -
  have "sign_tx_dispatch (spec_steps plain_engine)
       (fresh_session\<lparr>pseudo_output_sum := 5, output_commitment_sum := 5\<rparr>)
       (AllOutSetRequest :: (nat \<times> nat) msg) () =
     Inr (0, Some [MoneroTransactionSignInputRequest],
          fresh_session\<lparr>pseudo_output_sum := 5, output_commitment_sum := 5\<rparr>)"
    using balance_check_at_all_outputs_set
      [where E = plain_engine
         and s = "fresh_session\<lparr>pseudo_output_sum := 5, output_commitment_sum := 5\<rparr>"
         and keychain = "()"]
    by (simp add: plain_engine_def fresh_session_def)
  moreover have "sign_tx_loop (Suc 0) (spec_steps plain_engine) scripted_host ()
       (fresh_session\<lparr>pseudo_output_sum := 5, output_commitment_sum := 6\<rparr>)
       AllOutSetRequest ([] :: (nat \<times> nat) msg list) =
     (Raised IntegrityError, [], [])"
    using balance_check_at_all_outputs_set
      [where E = plain_engine
         and s = "fresh_session\<lparr>pseudo_output_sum := 5, output_commitment_sum := 6\<rparr>"
         and keychain = "()" and n = 0 and io = scripted_host and ctx = "[]"]
    by (simp add: fresh_session_def)
  ultimately show ?thesis by blast
qed

text \<open>
  C6. With the step handlers of the specification, in each of the four phases whose
  requests carry an index (SET_INPUT, INPUT_VINI, SET_OUTPUT, SIGN_INPUT) a request
  whose declared index is not the cursor, be it the index of an item already
  processed or one further ahead, is rejected: the loop ends with
  ProtocolSequenceError before the item is processed, with nothing written and no
  further request read.
\<close>

theorem index_mismatch_rejected:
  "(declared_index E src_entr \<noteq> input_cursor s \<longrightarrow>
      sign_tx_loop (Suc n) (spec_steps E) io keychain s (SetInputRequest src_entr) ctx =
        (Raised ProtocolSequenceError, ctx, []))
   \<and> (declared_index E orig_idx \<noteq> input_cursor s \<longrightarrow>
      sign_tx_loop (Suc n) (spec_steps E) io keychain s
          (InputViniRequest src_entr vini vini_hmac orig_idx) ctx =
        (Raised ProtocolSequenceError, ctx, []))
   \<and> (declared_index E dst \<noteq> output_cursor s \<longrightarrow>
      sign_tx_loop (Suc n) (spec_steps E) io keychain s
          (SetOutputRequest is_offloaded_bp dst dst_hmac rsig_data) ctx =
        (Raised ProtocolSequenceError, ctx, []))
   \<and> (declared_index E orig_idx \<noteq> input_cursor s \<longrightarrow>
      sign_tx_loop (Suc n) (spec_steps E) io keychain s
          (SignInputRequest src_entr vini vini_hmac pseudo_out pseudo_out_hmac
             pseudo_out_alpha spend_key orig_idx) ctx =
        (Raised ProtocolSequenceError, ctx, []))"
  by (simp add: spec_steps_def spec_set_input_def spec_input_vini_def spec_set_output_def
      spec_sign_input_def with_accept_def)

theorem index_mismatch_rejected_witness:
  "sign_tx_loop (Suc 0) (spec_steps plain_engine) scripted_host ()
       (fresh_session\<lparr>input_cursor := 1\<rparr>) (SetInputRequest (0, 7))
       ([] :: (nat \<times> nat) msg list) =
     (Raised ProtocolSequenceError, [], [])
   \<and> sign_tx_loop (Suc 0) (spec_steps plain_engine) scripted_host ()
       (fresh_session\<lparr>output_cursor := 1\<rparr>) (SetOutputRequest None (3, 7) (0, 0) (0, 0))
       ([] :: (nat \<times> nat) msg list) =
     (Raised ProtocolSequenceError, [], [])"
proof -
  have "sign_tx_loop (Suc 0) (spec_steps plain_engine) scripted_host ()
       (fresh_session\<lparr>input_cursor := 1\<rparr>) (SetInputRequest (0, 7))
       ([] :: (nat \<times> nat) msg list) =
     (Raised ProtocolSequenceError, [], [])"
    using index_mismatch_rejected
      [where E = plain_engine and s = "fresh_session\<lparr>input_cursor := 1\<rparr>"
         and src_entr = "(0, 7)" and n = 0 and io = scripted_host and keychain = "()"
         and ctx = "[]"]
    by (simp add: plain_engine_def fresh_session_def)
  moreover have "sign_tx_loop (Suc 0) (spec_steps plain_engine) scripted_host ()
       (fresh_session\<lparr>output_cursor := 1\<rparr>) (SetOutputRequest None (3, 7) (0, 0) (0, 0))
       ([] :: (nat \<times> nat) msg list) =
     (Raised ProtocolSequenceError, [], [])"
    using index_mismatch_rejected
      [where E = plain_engine and s = "fresh_session\<lparr>output_cursor := 1\<rparr>"
         and dst = "(3, 7)" and n = 0 and io = scripted_host and keychain = "()"
         and ctx = "[]" and is_offloaded_bp = None and dst_hmac = "(0, 0)"
         and rsig_data = "(0, 0)"]
    by (simp add: plain_engine_def fresh_session_def)
  ultimately show ?thesis by blast
qed

text \<open>
  C8. With the step handlers of the specification, an INIT request that declares more
  inputs or more outputs than the ceiling raises LimitExceededError while INIT is
  processed, before any accumulation begins and before a session is created: the
  dispatcher raises for whatever \<^verbatim>\<open>State\<close> object it is given and returns no
  session; the step that starts the session and derives its secret is not consulted,
  so the outcome is the same whatever that step and the constructor of the empty
  \<^verbatim>\<open>State\<close> object are; and \<^verbatim>\<open>sign_tx\<close> ends with the error with nothing
  written and no further request read.
\<close>

theorem count_ceiling_rejected_at_init:
  assumes "declared_counts E tsx_data = (n_in, n_out)"
    and "max_count E < n_in \<or> max_count E < n_out"
  shows "sign_tx_dispatch (spec_steps E) s (InitRequest address_n network_type tsx_data) keychain
           = Inl LimitExceededError
       \<and> sign_tx (Suc n) (spec_steps E) io State ctx
           (InitRequest address_n network_type tsx_data) keychain =
         (Raised LimitExceededError, ctx, [StateCreated])
       \<and> sign_tx (Suc n) (spec_steps (E\<lparr>start_session := start\<rparr>)) io State' ctx
           (InitRequest address_n network_type tsx_data) keychain =
         sign_tx (Suc n) (spec_steps E) io State ctx
           (InitRequest address_n network_type tsx_data) keychain"
  using assms
  by (auto simp: sign_tx_def spec_steps_def spec_init_transaction_def with_accept_def)

theorem count_ceiling_rejected_at_init_witness:
  "sign_tx_dispatch (spec_steps plain_engine) fresh_session
       (InitRequest (0, 0) (0, 0) (2, 17)) () = Inl LimitExceededError
   \<and> sign_tx (Suc 0) (spec_steps plain_engine) scripted_host (\<lambda>c. fresh_session)
       ([] :: (nat \<times> nat) msg list) (InitRequest (0, 0) (0, 0) (2, 17)) () =
     (Raised LimitExceededError, [], [StateCreated])
   \<and> sign_tx (Suc 0) (spec_steps plain_engine) scripted_host (\<lambda>c. fresh_session)
       ([] :: (nat \<times> nat) msg list) (InitRequest (0, 0) (0, 0) (17, 1)) () =
     (Raised LimitExceededError, [], [StateCreated])"
proof -
  have c: "declared_counts plain_engine (2, 17) = (2, 17)"
    and c': "declared_counts plain_engine (17, 1) = (17, 1)"
    by (simp_all add: plain_engine_def)
  have m: "max_count plain_engine < 2 \<or> max_count plain_engine < 17"
    and m': "max_count plain_engine < 17 \<or> max_count plain_engine < 1"
    by (simp_all add: plain_engine_def)
  note a = count_ceiling_rejected_at_init
      [where E = plain_engine and tsx_data = "(2, 17)" and n_in = 2 and n_out = 17
         and s = fresh_session and address_n = "(0, 0)" and network_type = "(0, 0)"
         and keychain = "()" and n = 0 and io = scripted_host
         and State = "\<lambda>c. fresh_session" and ctx = "[]", OF c m]
  note b = count_ceiling_rejected_at_init
      [where E = plain_engine and tsx_data = "(17, 1)" and n_in = 17 and n_out = 1
         and s = fresh_session and address_n = "(0, 0)" and network_type = "(0, 0)"
         and keychain = "()" and n = 0 and io = scripted_host
         and State = "\<lambda>c. fresh_session" and ctx = "[]", OF c' m']
  from a b show ?thesis by simp
qed





section \<open>Properties of the Cardano auxiliary data validation\<close>

lemma sample_registration_valid:
  "validate_governance_registration_parameters lenient_imports sample_registration = Inr ()"
  by (simp add: validate_governance_registration_parameters_def lenient_imports_def
      sample_registration_def and_then_def assert_cond_def validate_voting_public_key_def
      GOVERNANCE_VOTING_PUBLIC_KEY_LENGTH_def Let_def)

text \<open>
  C9 (as amended). The validation of the auxiliary data accepts if and only if
  exactly one of the fields \<^verbatim>\<open>hash\<close> and
  \<^verbatim>\<open>governance_registration_parameters\<close> is true in Python's sense, so that a hash
  that is \<^verbatim>\<open>None\<close> or empty counts as not provided, and the one provided is valid (a
  hash of exactly 32 bytes, parameters that pass their own validation). With neither
  provided it raises ProcessError("Invalid auxiliary data"); with both provided it
  raises, and the error is that one unless the validation of the parameters has raised
  before.
\<close>

theorem validate_exactly_one_field:
  "(validate I aux = Inr () \<longleftrightarrow>
      (\<exists>h. hash aux = Some h \<and> h \<noteq> [] \<and> length h = 32
            \<and> governance_registration_parameters aux = None)
      \<or> (\<exists>p. \<not> hash_is_true (hash aux)
            \<and> governance_registration_parameters aux = Some p
            \<and> validate_governance_registration_parameters I p = Inr ()))
   \<and> (\<not> hash_is_true (hash aux) \<and> governance_registration_parameters aux = None
        \<longrightarrow> validate I aux = Inl (ProcessError ''Invalid auxiliary data''))
   \<and> (hash aux = Some h \<and> h \<noteq> [] \<and> governance_registration_parameters aux = Some p
        \<longrightarrow> validate I aux =
              (if length h \<noteq> 32 then Inl (ProcessError ''Invalid auxiliary data'')
               else case validate_governance_registration_parameters I p of
                      Inl e \<Rightarrow> Inl e
                    | Inr u \<Rightarrow> Inl (ProcessError ''Invalid auxiliary data'')))"
  by (cases "hash aux"; cases "governance_registration_parameters aux")
     (auto simp: validate_def and_then_def assert_cond_def Let_def
        AUXILIARY_DATA_HASH_SIZE_def split: sum.splits)

theorem validate_exactly_one_field_witness:
  "validate lenient_imports
       \<lparr> hash = Some (replicate 32 0), governance_registration_parameters = None \<rparr> = Inr ()
   \<and> validate lenient_imports
       \<lparr> hash = None, governance_registration_parameters = None \<rparr> =
     Inl (ProcessError ''Invalid auxiliary data'')
   \<and> validate lenient_imports
       \<lparr> hash = Some (replicate 32 0),
         governance_registration_parameters = Some sample_registration \<rparr> =
     Inl (ProcessError ''Invalid auxiliary data'')"
proof -
  have "validate lenient_imports
       \<lparr> hash = Some (replicate 32 0), governance_registration_parameters = None \<rparr> = Inr ()"
    using validate_exactly_one_field
      [where I = lenient_imports
         and aux = "\<lparr> hash = Some (replicate 32 0), governance_registration_parameters = None \<rparr>"]
    by simp
  moreover have "validate lenient_imports
       \<lparr> hash = None, governance_registration_parameters = None \<rparr> =
     Inl (ProcessError ''Invalid auxiliary data'')"
    using validate_exactly_one_field
      [where I = lenient_imports
         and aux = "\<lparr> hash = None, governance_registration_parameters = None \<rparr>"]
    by simp
  moreover have "validate lenient_imports
       \<lparr> hash = Some (replicate 32 0),
         governance_registration_parameters = Some sample_registration \<rparr> =
     Inl (ProcessError ''Invalid auxiliary data'')"
    using validate_exactly_one_field
      [where I = lenient_imports and h = "replicate 32 0" and p = sample_registration
         and aux = "\<lparr> hash = Some (replicate 32 0),
                       governance_registration_parameters = Some sample_registration \<rparr>"]
      sample_registration_valid
    by simp
  ultimately show ?thesis by blast
qed

theorem empty_hash_with_registration_accepted:
  "hash \<lparr> hash = Some [], governance_registration_parameters = Some sample_registration \<rparr>
     \<noteq> None
   \<and> governance_registration_parameters
       \<lparr> hash = Some [], governance_registration_parameters = Some sample_registration \<rparr>
     \<noteq> None
   \<and> validate lenient_imports
       \<lparr> hash = Some [], governance_registration_parameters = Some sample_registration \<rparr>
     = Inr ()"
  by (simp add: validate_def sample_registration_valid and_then_def assert_cond_def Let_def)

section \<open>Properties of the recovery process\<close>

text \<open>
  C10. When the recovery dialogue raises \<^verbatim>\<open>RecoveryAborted\<close>,
  \<^verbatim>\<open>recovery_process\<close> raises \<^verbatim>\<open>wire.ActionCancelled\<close>, and before that it has
  made exactly one call on the storage: \<^verbatim>\<open>storage.wipe\<close> when the recovery is not
  a dry run, and \<^verbatim>\<open>storage_recovery.end_progress\<close>, with no wipe, when it is one.
\<close>

theorem recovery_abort_wipes_unless_dry_run:
  assumes "continue_recovery_process (storage dev) = (Inl RecoveryAborted, st)"
  shows "recovery_process S continue_recovery_process dev =
     (Inl ActionCancelled,
      dev\<lparr>AVOID_RESTARTING_FOR := [''Initialize'', ''GetFeatures''],
          storage := (if is_dry_run S st then end_progress S st else wipe S st),
          calls := calls dev @ [if is_dry_run S st then EndProgress else Wipe]\<rparr>)"
  using assms by (simp add: recovery_process_def Let_def)

theorem recovery_abort_wipes_unless_dry_run_witness:
  "recovery_process sample_calls (\<lambda>st. (Inl RecoveryAborted :: error + unit, st))
       \<lparr> storage = \<lparr> has_seed = True, recovery_in_progress = Some True \<rparr>,
         calls = [], AVOID_RESTARTING_FOR = [] \<rparr> =
     (Inl ActionCancelled,
      \<lparr> storage = \<lparr> has_seed = True, recovery_in_progress = None \<rparr>,
        calls = [EndProgress], AVOID_RESTARTING_FOR = [''Initialize'', ''GetFeatures''] \<rparr>)
   \<and> recovery_process sample_calls (\<lambda>st. (Inl RecoveryAborted :: error + unit, st))
       \<lparr> storage = \<lparr> has_seed = True, recovery_in_progress = Some False \<rparr>,
         calls = [], AVOID_RESTARTING_FOR = [] \<rparr> =
     (Inl ActionCancelled,
      \<lparr> storage = \<lparr> has_seed = False, recovery_in_progress = None \<rparr>,
        calls = [Wipe], AVOID_RESTARTING_FOR = [''Initialize'', ''GetFeatures''] \<rparr>)"
proof -
  have "recovery_process sample_calls (\<lambda>st. (Inl RecoveryAborted :: error + unit, st))
       \<lparr> storage = \<lparr> has_seed = True, recovery_in_progress = Some True \<rparr>,
         calls = [], AVOID_RESTARTING_FOR = [] \<rparr> =
     (Inl ActionCancelled,
      \<lparr> storage = \<lparr> has_seed = True, recovery_in_progress = None \<rparr>,
        calls = [EndProgress], AVOID_RESTARTING_FOR = [''Initialize'', ''GetFeatures''] \<rparr>)"
    using recovery_abort_wipes_unless_dry_run
      [where S = sample_calls
         and continue_recovery_process = "\<lambda>st. (Inl RecoveryAborted :: error + unit, st)"
         and dev = "\<lparr> storage = \<lparr> has_seed = True, recovery_in_progress = Some True \<rparr>,
                      calls = [], AVOID_RESTARTING_FOR = [] \<rparr>"
         and st = "\<lparr> has_seed = True, recovery_in_progress = Some True \<rparr>"]
    by (simp add: sample_calls_def)
  moreover have "recovery_process sample_calls (\<lambda>st. (Inl RecoveryAborted :: error + unit, st))
       \<lparr> storage = \<lparr> has_seed = True, recovery_in_progress = Some False \<rparr>,
         calls = [], AVOID_RESTARTING_FOR = [] \<rparr> =
     (Inl ActionCancelled,
      \<lparr> storage = \<lparr> has_seed = False, recovery_in_progress = None \<rparr>,
        calls = [Wipe], AVOID_RESTARTING_FOR = [''Initialize'', ''GetFeatures''] \<rparr>)"
    using recovery_abort_wipes_unless_dry_run
      [where S = sample_calls
         and continue_recovery_process = "\<lambda>st. (Inl RecoveryAborted :: error + unit, st)"
         and dev = "\<lparr> storage = \<lparr> has_seed = True, recovery_in_progress = Some False \<rparr>,
                      calls = [], AVOID_RESTARTING_FOR = [] \<rparr>"
         and st = "\<lparr> has_seed = True, recovery_in_progress = Some False \<rparr>"]
    by (simp add: sample_calls_def)
  ultimately show ?thesis by blast
qed

end
